theory Spec2Isabelle
  imports Complex_Main "HOL-Library.Word"
begin

section \<open>JavaScript values\<close>

text \<open>
  The server is TypeScript running on Node.js. A JavaScript string is a sequence of
  16-bit code units; \<open>str\<close> turns a literal of this theory into one.
\<close>

type_synonym jsstring = "16 word list"

definition str :: "string \<Rightarrow> jsstring" where
  "str s = map (\<lambda>c. of_nat (of_char c)) s"

text \<open>
  A number is a binary64 value. Only its class matters to the server (zero and NaN are
  falsy, everything else is truthy), so a finite number is kept as the rational it
  denotes; rounding is not modelled and the two zeros are one value.
\<close>

datatype number = Finite rat | NaN | PosInfinity | NegInfinity

text \<open>
  The values a decoded request, a parsed JSON text or a deserialised document can hold.
  \<open>Object\<close> stands for every non-array object (plain objects, and the driver's
  ObjectId, Date, ... which \<open>typeof\<close> does not tell apart); it carries the own
  enumerable string-keyed properties in creation order.
\<close>

datatype jsvalue =
    Undefined
  | Null
  | Boolean bool
  | Number number
  | String jsstring
  | Array "jsvalue list"
  | Object "(jsstring \<times> jsvalue) list"

type_synonym document = "(jsstring \<times> jsvalue) list"

text \<open>Every value the code throws is an \<open>Error\<close> instance with a message.\<close>

datatype exn = Error jsstring | TypeError jsstring | SyntaxError jsstring

fun message :: "exn \<Rightarrow> jsstring" where
  "message (Error m) = m"
| "message (TypeError m) = m"
| "message (SyntaxError m) = m"

fun typeof :: "jsvalue \<Rightarrow> jsstring" where
  "typeof Undefined = str ''undefined''"
| "typeof Null = str ''object''"
| "typeof (Boolean b) = str ''boolean''"
| "typeof (Number n) = str ''number''"
| "typeof (String s) = str ''string''"
| "typeof (Array xs) = str ''object''"
| "typeof (Object ps) = str ''object''"

fun isArray :: "jsvalue \<Rightarrow> bool" where
  "isArray (Array xs) = True"
| "isArray v = False"

text \<open>\<open>ToBoolean\<close>, which \<open>c ? a : b\<close>, \<open>!x\<close> and \<open>x || y\<close> apply to their operand.\<close>

fun ToBoolean_number :: "number \<Rightarrow> bool" where
  "ToBoolean_number (Finite r) = (r \<noteq> 0)"
| "ToBoolean_number NaN = False"
| "ToBoolean_number PosInfinity = True"
| "ToBoolean_number NegInfinity = True"

fun ToBoolean :: "jsvalue \<Rightarrow> bool" where
  "ToBoolean Undefined = False"
| "ToBoolean Null = False"
| "ToBoolean (Boolean b) = b"
| "ToBoolean (Number n) = ToBoolean_number n"
| "ToBoolean (String s) = (s \<noteq> [])"
| "ToBoolean (Array xs) = True"
| "ToBoolean (Object ps) = True"

definition or_else :: "jsvalue \<Rightarrow> jsvalue \<Rightarrow> jsvalue" where
  \<comment> \<open>\<open>a || b\<close>\<close>
  "or_else a b = (if ToBoolean a then a else b)"

subsection \<open>Ordinary objects\<close>

text \<open>
  An ordinary object is the list of its own properties in creation order.
  \<open>Object.keys\<close> (and \<open>JSON.stringify\<close>) enumerate the array-index keys first, in
  ascending numeric order, and then the other keys in creation order. An array index
  is the canonical decimal numeral of an integer below \<open>2^32 - 1\<close>.
\<close>

definition is_digit :: "16 word \<Rightarrow> bool" where
  "is_digit c = (48 \<le> c \<and> c \<le> 57)"

definition decimal_value :: "jsstring \<Rightarrow> nat" where
  "decimal_value k = foldl (\<lambda>n c. 10 * n + (unat c - 48)) 0 k"

definition is_array_index :: "jsstring \<Rightarrow> bool" where
  "is_array_index k =
     (k \<noteq> [] \<and> list_all is_digit k \<and> (length k = 1 \<or> hd k \<noteq> 48)
      \<and> decimal_value k < 2 ^ 32 - 1)"

definition enumeration_order :: "jsstring list \<Rightarrow> jsstring list" where
  "enumeration_order ks =
     sort_key decimal_value (filter is_array_index ks)
       @ filter (\<lambda>k. \<not> is_array_index k) ks"

definition Object_keys :: "(jsstring \<times> 'a) list \<Rightarrow> jsstring list" where
  "Object_keys props = enumeration_order (map fst props)"

definition get :: "document \<Rightarrow> jsstring \<Rightarrow> jsvalue" where
  \<comment> \<open>\<open>doc[key]\<close> on an object without inherited members of that name\<close>
  "get doc key = (case map_of doc key of Some v \<Rightarrow> v | None \<Rightarrow> Undefined)"

fun set_property :: "(jsstring \<times> 'a) list \<Rightarrow> jsstring \<Rightarrow> 'a \<Rightarrow> (jsstring \<times> 'a) list" where
  \<comment> \<open>\<open>obj[key] = v\<close> on own data properties: overwrite in place, or create last\<close>
  "set_property [] k v = [(k, v)]"
| "set_property ((k', v') # ps) k v =
     (if k' = k then (k, v) # ps else (k', v') # set_property ps k v)"

text \<open>
  An object literal \<open>{}\<close> inherits from \<open>Object.prototype\<close>. Reading
  \<open>schema[key]\<close> therefore finds the own property, or else the inherited member of that
  name (a function, or the prototype itself for \<open>__proto__\<close>), or else \<open>undefined\<close>.
  The member names are those of Node's \<open>Object.prototype\<close>.
\<close>

definition Object_prototype_keys :: "jsstring list" where
  "Object_prototype_keys = map str
     [''constructor'', ''hasOwnProperty'', ''isPrototypeOf'', ''propertyIsEnumerable'',
      ''toLocaleString'', ''toString'', ''valueOf'', ''__proto__'',
      ''__defineGetter__'', ''__defineSetter__'', ''__lookupGetter__'', ''__lookupSetter__'']"

datatype 'a lookup = Own 'a | Inherited | Absent

definition get_property :: "(jsstring \<times> 'a) list \<Rightarrow> jsstring \<Rightarrow> 'a lookup" where
  "get_property obj key =
     (case map_of obj key of
        Some v \<Rightarrow> Own v
      | None \<Rightarrow> if key \<in> set Object_prototype_keys then Inherited else Absent)"

section \<open>The schema inferencer\<close>

text \<open>
  \<^verbatim>\<open>
  private inferSchema(documents: any[]): Record<string, any> {
    if (documents.length === 0) return {};
    const schema: Record<string, any> = {};
    documents.forEach((doc) => {
      Object.keys(doc).forEach((key) => {
        const value = doc[key];
        const type = Array.isArray(value) ? "array" : value === null ? "null"
          : typeof value === "object" ? "object" : typeof value;
        if (!schema[key]) { schema[key] = { type, examples: [] }; }
        if (schema[key].examples.length < 3 && value !== null && value !== undefined) {
          schema[key].examples.push(value);
        }
      });
    });
    return schema;
  }
  \<close>
\<close>

record descriptor =
  type :: jsstring
  examples :: "jsvalue list"

type_synonym schema = "(jsstring \<times> descriptor) list"

definition classify :: "jsvalue \<Rightarrow> jsstring" where
  "classify v =
     (if isArray v then str ''array''
      else if v = Null then str ''null''
      else if typeof v = str ''object'' then str ''object''
      else typeof v)"

fun forEach :: "('s \<Rightarrow> 'a \<Rightarrow> exn + 's) \<Rightarrow> 'a list \<Rightarrow> 's \<Rightarrow> exn + 's" where
  "forEach f [] s = Inr s"
| "forEach f (x # xs) s =
     (case f s x of Inl e \<Rightarrow> Inl e | Inr s' \<Rightarrow> forEach f xs s')"

definition infer_field :: "schema \<Rightarrow> jsstring \<Rightarrow> jsvalue \<Rightarrow> exn + schema" where
  "infer_field schema key v =
     (let schema1 =
            (case get_property schema key of
               Absent \<Rightarrow> set_property schema key \<lparr>type = classify v, examples = []\<rparr>
             | _ \<Rightarrow> schema)
      in case get_property schema1 key of
           Own d \<Rightarrow>
             Inr (if length (examples d) < 3 \<and> v \<noteq> Null \<and> v \<noteq> Undefined
                  then set_property schema1 key (d\<lparr>examples := examples d @ [v]\<rparr>)
                  else schema1)
         | Inherited \<Rightarrow>
             Inl (TypeError (str ''Cannot read properties of undefined (reading 'length')''))
         | Absent \<Rightarrow>
             Inl (TypeError (str ''Cannot read properties of undefined (reading 'examples')'')))"

definition inferSchema :: "document list \<Rightarrow> exn + schema" where
  "inferSchema documents =
     (if length documents = 0 then Inr []
      else forEach
             (\<lambda>schema doc.
                forEach (\<lambda>schema key. infer_field schema key (get doc key))
                  (Object_keys doc) schema)
             documents [])"

text \<open>
  What the two loops visit, in order, and what they are expected to have collected
  for a field: the class of the first value seen, and the first three values that are
  neither \<open>null\<close> nor \<open>undefined\<close>.
\<close>

definition visits :: "document list \<Rightarrow> (jsstring \<times> jsvalue) list" where
  "visits documents =
     concat (map (\<lambda>doc. map (\<lambda>key. (key, get doc key)) (Object_keys doc)) documents)"

definition first_seen :: "'a list \<Rightarrow> 'a list" where
  "first_seen xs = rev (remdups (rev xs))"

definition values_of :: "(jsstring \<times> jsvalue) list \<Rightarrow> jsstring \<Rightarrow> jsvalue list" where
  "values_of pairs k = map snd (filter (\<lambda>p. fst p = k) pairs)"

definition described :: "(jsstring \<times> jsvalue) list \<Rightarrow> jsstring \<Rightarrow> descriptor" where
  "described pairs k =
     \<lparr>type = classify (get pairs k),
      examples = take 3 (filter (\<lambda>v. v \<noteq> Null \<and> v \<noteq> Undefined) (values_of pairs k))\<rparr>"

definition collected :: "(jsstring \<times> jsvalue) list \<Rightarrow> schema" where
  "collected pairs = map (\<lambda>k. (k, described pairs k)) (first_seen (map fst pairs))"

section \<open>\<open>JSON.parse\<close>\<close>

text \<open>
  The query fragments arrive as text and are decoded by the engine's \<open>JSON.parse\<close>,
  modelled here after the JSON grammar (ECMA-404): white space is space, tab, line feed
  and carriage return; a value is an object, an array, a string, a number or one of the
  three literals. \<open>None\<close> stands for the \<open>SyntaxError\<close> the engine throws. The value
  of a numeric literal is kept exact.
\<close>

definition is_ws :: "16 word \<Rightarrow> bool" where
  "is_ws c = (c = 32 \<or> c = 9 \<or> c = 10 \<or> c = 13)"

definition hex_value :: "16 word \<Rightarrow> nat option" where
  "hex_value c =
     (if 48 \<le> c \<and> c \<le> 57 then Some (unat c - 48)
      else if 97 \<le> c \<and> c \<le> 102 then Some (unat c - 87)
      else if 65 \<le> c \<and> c \<le> 70 then Some (unat c - 55)
      else None)"

definition hex4 :: "16 word \<Rightarrow> 16 word \<Rightarrow> 16 word \<Rightarrow> 16 word \<Rightarrow> 16 word option" where
  "hex4 h1 h2 h3 h4 =
     (case (hex_value h1, hex_value h2, hex_value h3, hex_value h4) of
        (Some a, Some b, Some c, Some d) \<Rightarrow> Some (of_nat (((a * 16 + b) * 16 + c) * 16 + d))
      | _ \<Rightarrow> None)"

definition escape :: "16 word \<Rightarrow> 16 word option" where
  \<comment> \<open>the character after a backslash: \<open>" \ / b f n r t\<close>\<close>
  "escape c =
     (if c = 34 then Some 34 else if c = 92 then Some 92 else if c = 47 then Some 47
      else if c = 98 then Some 8 else if c = 102 then Some 12 else if c = 110 then Some 10
      else if c = 114 then Some 13 else if c = 116 then Some 9 else None)"

fun parse_string :: "jsstring \<Rightarrow> (jsstring \<times> jsstring) option" where
  \<comment> \<open>after the opening quote: the decoded characters and the text after the closing quote\<close>
  "parse_string [] = None"
| "parse_string (c # cs) =
     (if c = 34 then Some ([], cs)
      else if c = 92 then
        (case cs of
           [] \<Rightarrow> None
         | e # cs1 \<Rightarrow>
             if e = 117 then
               (case cs1 of
                  h1 # h2 # h3 # h4 # cs2 \<Rightarrow>
                    (case hex4 h1 h2 h3 h4 of
                       None \<Rightarrow> None
                     | Some x \<Rightarrow> map_option (\<lambda>(s, r). (x # s, r)) (parse_string cs2))
                | _ \<Rightarrow> None)
             else
               (case escape e of
                  None \<Rightarrow> None
                | Some x \<Rightarrow> map_option (\<lambda>(s, r). (x # s, r)) (parse_string cs1)))
      else if c < 32 then None
      else map_option (\<lambda>(s, r). (c # s, r)) (parse_string cs))"

definition parse_number :: "jsstring \<Rightarrow> (number \<times> jsstring) option" where
  \<comment> \<open>\<open>-? (0 | [1-9][0-9]*) (. [0-9]+)? ([eE] [+-]? [0-9]+)?\<close>\<close>
  "parse_number s =
     (let negative = (s \<noteq> [] \<and> hd s = 45);
          s1 = (if negative then tl s else s);
          ds = (if s1 \<noteq> [] \<and> hd s1 = 48 then [48] else takeWhile is_digit s1);
          s2 = drop (length ds) s1;
          has_frac = (s2 \<noteq> [] \<and> hd s2 = 46);
          fs = (if has_frac then takeWhile is_digit (tl s2) else []);
          s3 = (if has_frac then drop (length fs) (tl s2) else s2);
          has_exp = (s3 \<noteq> [] \<and> (hd s3 = 101 \<or> hd s3 = 69));
          s4 = (if has_exp then tl s3 else s3);
          exp_negative = (has_exp \<and> s4 \<noteq> [] \<and> hd s4 = 45);
          s5 = (if has_exp \<and> s4 \<noteq> [] \<and> (hd s4 = 45 \<or> hd s4 = 43) then tl s4 else s4);
          es = (if has_exp then takeWhile is_digit s5 else []);
          s6 = drop (length es) s5;
          mantissa = (of_nat (decimal_value (ds @ fs)) / 10 ^ length fs :: rat);
          scaled = (if exp_negative then mantissa / 10 ^ decimal_value es
                    else mantissa * 10 ^ decimal_value es)
      in if ds = [] \<or> (has_frac \<and> fs = []) \<or> (has_exp \<and> es = []) then None
         else Some (Finite (if negative then - scaled else scaled), s6))"

definition make_object :: "(jsstring \<times> jsvalue) list \<Rightarrow> jsvalue" where
  \<comment> \<open>members are defined in source order; a repeated key keeps its place and takes the last value\<close>
  "make_object members = Object (foldl (\<lambda>obj (k, v). set_property obj k v) [] members)"

text \<open>
  Values nest, so the parser is recursive in the text that remains; it carries a
  counter that bounds the depth of its own calls. Each call consumes a character before
  calling itself twice in a row, so twice the length of the text is never exhausted.
\<close>

fun parse_value :: "nat \<Rightarrow> jsstring \<Rightarrow> (jsvalue \<times> jsstring) option"
  and parse_elements :: "nat \<Rightarrow> jsstring \<Rightarrow> (jsvalue list \<times> jsstring) option"
  and parse_members :: "nat \<Rightarrow> jsstring \<Rightarrow> ((jsstring \<times> jsvalue) list \<times> jsstring) option"
where
  "parse_value 0 s = None"
| "parse_value (Suc n) s =
     (case dropWhile is_ws s of
        [] \<Rightarrow> None
      | c # cs \<Rightarrow>
          if c = 123 then
            (case dropWhile is_ws cs of
               [] \<Rightarrow> None
             | c' # cs' \<Rightarrow>
                 if c' = 125 then Some (Object [], cs')
                 else map_option (\<lambda>(ms, r). (make_object ms, r)) (parse_members n cs))
          else if c = 91 then
            (case dropWhile is_ws cs of
               [] \<Rightarrow> None
             | c' # cs' \<Rightarrow>
                 if c' = 93 then Some (Array [], cs')
                 else map_option (\<lambda>(vs, r). (Array vs, r)) (parse_elements n cs))
          else if c = 34 then map_option (\<lambda>(x, r). (String x, r)) (parse_string cs)
          else if c = 45 \<or> is_digit c then
            map_option (\<lambda>(x, r). (Number x, r)) (parse_number (c # cs))
          else if take 4 (c # cs) = str ''true'' then Some (Boolean True, drop 4 (c # cs))
          else if take 5 (c # cs) = str ''false'' then Some (Boolean False, drop 5 (c # cs))
          else if take 4 (c # cs) = str ''null'' then Some (Null, drop 4 (c # cs))
          else None)"
| "parse_elements 0 s = None"
| "parse_elements (Suc n) s =
     (case parse_value n s of
        None \<Rightarrow> None
      | Some (v, r) \<Rightarrow>
          (case dropWhile is_ws r of
             [] \<Rightarrow> None
           | c # cs \<Rightarrow>
               if c = 44 then map_option (\<lambda>(vs, r'). (v # vs, r')) (parse_elements n cs)
               else if c = 93 then Some ([v], cs)
               else None))"
| "parse_members 0 s = None"
| "parse_members (Suc n) s =
     (case dropWhile is_ws s of
        [] \<Rightarrow> None
      | q # s1 \<Rightarrow>
          if q \<noteq> 34 then None
          else
            (case parse_string s1 of
               None \<Rightarrow> None
             | Some (k, s2) \<Rightarrow>
                 (case dropWhile is_ws s2 of
                    [] \<Rightarrow> None
                  | colon # s3 \<Rightarrow>
                      if colon \<noteq> 58 then None
                      else
                        (case parse_value n s3 of
                           None \<Rightarrow> None
                         | Some (v, r) \<Rightarrow>
                             (case dropWhile is_ws r of
                                [] \<Rightarrow> None
                              | c # cs \<Rightarrow>
                                  if c = 44 then
                                    map_option (\<lambda>(ms, r'). ((k, v) # ms, r')) (parse_members n cs)
                                  else if c = 125 then Some ([(k, v)], cs)
                                  else None)))))"

definition JSON_parse :: "jsstring \<Rightarrow> jsvalue option" where
  "JSON_parse text =
     (case parse_value (2 * length text + 2) text of
        None \<Rightarrow> None
      | Some (v, rest) \<Rightarrow> if dropWhile is_ws rest = [] then Some v else None)"


section \<open>The server\<close>

subsection \<open>Configuration, driver and connection state\<close>

text \<open>
  \<^verbatim>\<open>
  const MONGODB_URI = process.env.MONGODB_URI || "mongodb://localhost:27017";
  const DATABASE_NAME = process.env.MONGODB_DATABASE || "mycompany";
  \<close>
\<close>

record config =
  MONGODB_URI :: jsstring
  DATABASE_NAME :: jsstring

text \<open>
  The calls the server makes on the MongoDB driver. \<open>Find\<close> carries the collection,
  the filter, the projection, the argument of \<open>.sort\<close> and of \<open>.skip\<close> where the chain
  has them, and the argument of \<open>.limit\<close>; the chain up to \<open>.toArray()\<close> is one call.
\<close>

datatype store_call =
    NewMongoClient jsstring
  | Connect
  | Ping
  | ListCollections jsstring
  | CollStats jsstring jsvalue
  | Find jsstring jsvalue jsvalue "jsvalue option" "jsvalue option" jsvalue
  | CountDocuments jsstring jsvalue
  | Aggregate jsstring jsvalue
  | Distinct jsstring jsstring jsvalue
  | ListDatabases
  | ServerStatus
  | DbStats

text \<open>
  The driver and the engine are outside the repository. The driver is any function
  from the calls made so far and the call being made to that call's outcome, at the
  result type the driver declares for it; the engine supplies the diagnostic text of a
  \<open>SyntaxError\<close> of \<open>JSON.parse\<close> and the \<open>stack\<close> of an error.
\<close>

record platform =
  outcome_unit :: "store_call list \<Rightarrow> store_call \<Rightarrow> exn + unit"
  outcome_documents :: "store_call list \<Rightarrow> store_call \<Rightarrow> exn + document list"
  outcome_document :: "store_call list \<Rightarrow> store_call \<Rightarrow> exn + document"
  outcome_values :: "store_call list \<Rightarrow> store_call \<Rightarrow> exn + jsvalue list"
  outcome_number :: "store_call list \<Rightarrow> store_call \<Rightarrow> exn + number"
  json_error_text :: "jsstring \<Rightarrow> jsstring"
  stack_of :: "exn \<Rightarrow> jsvalue"

text \<open>
  \<^verbatim>\<open>
  private client: MongoClient | null = null;
  private db: Db | null = null;
  \<close>
  \<open>client\<close> holds the URI the client was constructed with, \<open>db\<close> the name of the
  database the handle stands for; \<open>calls\<close> records the driver calls made so far.
\<close>

record server =
  client :: "jsstring option"
  db :: "jsstring option"
  calls :: "store_call list"

definition initial :: server where
  "initial = \<lparr>client = None, db = None, calls = []\<rparr>"

type_synonym 'a action = "server \<Rightarrow> (exn + 'a) \<times> server"

definition return :: "'a \<Rightarrow> 'a action" where
  "return x = (\<lambda>s. (Inr x, s))"

definition throw :: "exn \<Rightarrow> 'a action" where
  "throw e = (\<lambda>s. (Inl e, s))"

definition bind :: "'a action \<Rightarrow> ('a \<Rightarrow> 'b action) \<Rightarrow> 'b action" where
  "bind m f = (\<lambda>s. case m s of (Inl e, s') \<Rightarrow> (Inl e, s') | (Inr x, s') \<Rightarrow> f x s')"

definition try_catch :: "'a action \<Rightarrow> (exn \<Rightarrow> 'a action) \<Rightarrow> 'a action" where
  "try_catch m h = (\<lambda>s. case m s of (Inl e, s') \<Rightarrow> h e s' | (Inr x, s') \<Rightarrow> (Inr x, s'))"

definition invoke :: "(store_call list \<Rightarrow> store_call \<Rightarrow> exn + 'a) \<Rightarrow> store_call \<Rightarrow> 'a action" where
  "invoke outcome c = (\<lambda>s. (outcome (calls s) c, s\<lparr>calls := calls s @ [c]\<rparr>))"

text \<open>
  \<^verbatim>\<open>
  private async connectToMongoDB() {
    if (!this.client) {
      try {
        this.client = new MongoClient(MONGODB_URI, {...});
        await this.client.connect();
        await this.client.db("admin").command({ ping: 1 });
        this.db = this.client.db(DATABASE_NAME);
      } catch (error) {
        throw new Error(`MongoDB connection failed: ${error instanceof Error
          ? error.message : String(error)}`);
      }
    }
  }
  \<close>
  The writes to standard error are not modelled.
\<close>

definition connectToMongoDB :: "platform \<Rightarrow> config \<Rightarrow> unit action" where
  "connectToMongoDB p cfg =
     (\<lambda>s. if client s = None then
            try_catch
              (bind (invoke (outcome_unit p) (NewMongoClient (MONGODB_URI cfg))) (\<lambda>_.
               bind (\<lambda>s. (Inr (), s\<lparr>client := Some (MONGODB_URI cfg)\<rparr>)) (\<lambda>_.
               bind (invoke (outcome_unit p) Connect) (\<lambda>_.
               bind (invoke (outcome_unit p) Ping) (\<lambda>_.
               (\<lambda>s. (Inr (), s\<lparr>db := Some (DATABASE_NAME cfg)\<rparr>)))))))
              (\<lambda>error. throw (Error (str ''MongoDB connection failed: '' @ message error)))
              s
          else (Inr (), s))"

subsection \<open>Redacting the connection target\<close>

text \<open>
  \<open>MONGODB_URI.replace(/\/\/.*@/, "//***@")\<close> replaces the leftmost match only. A match
  starts at two slashes; \<open>.\<close> matches any code unit but a line terminator and \<open>*\<close> is
  greedy, so the match ends at the last \<open>@\<close> of the line.
\<close>

definition LineTerminator :: "16 word \<Rightarrow> bool" where
  "LineTerminator c = (c = 10 \<or> c = 13 \<or> c = 0x2028 \<or> c = 0x2029)"

definition match_dot_star_at :: "jsstring \<Rightarrow> jsstring option" where
  \<comment> \<open>\<open>.*@\<close> matched at the start of \<open>t\<close>: what follows the match\<close>
  "match_dot_star_at t =
     (let line = takeWhile (\<lambda>c. \<not> LineTerminator c) t
      in if 64 \<in> set line
         then Some (rev (takeWhile (\<lambda>c. c \<noteq> 64) (rev line)) @ drop (length line) t)
         else None)"

fun redact :: "jsstring \<Rightarrow> jsstring" where
  "redact [] = []"
| "redact (c # cs) =
     (case (if c = 47 \<and> cs \<noteq> [] \<and> hd cs = 47 then match_dot_star_at (tl cs) else None) of
        Some rest \<Rightarrow> str ''//***@'' @ rest
      | None \<Rightarrow> c # redact cs)"

subsection \<open>Tool calls\<close>

text \<open>
  The arguments of a tool call at the types the handler asserts for them
  (\<open>request.params.arguments as {collection: string; filter?: string; ...}\<close>); an
  optional member that is absent is \<open>None\<close>.
\<close>

record arguments =
  arg_collection :: jsstring
  arg_filter :: "jsstring option"
  arg_projection :: "jsstring option"
  arg_sort :: "jsstring option"
  arg_limit :: "number option"
  arg_skip :: "number option"
  arg_pipeline :: jsstring
  arg_field :: jsstring
  arg_database :: "jsstring option"

record request =
  name :: jsstring
  arguments :: arguments

text \<open>
  What a handler returns: the object it passes to \<open>JSON.stringify(\<dots>, null, 2)\<close> for
  the text content, and the \<open>isError\<close> flag (absent on success).
\<close>

record envelope =
  content :: document
  isError :: bool

definition optional :: "('a \<Rightarrow> jsvalue) \<Rightarrow> 'a option \<Rightarrow> jsvalue" where
  "optional f x = (case x of None \<Rightarrow> Undefined | Some y \<Rightarrow> f y)"


definition JSON_parse_action :: "platform \<Rightarrow> jsstring \<Rightarrow> jsvalue action" where
  "JSON_parse_action p t =
     (case JSON_parse t of
        None \<Rightarrow> throw (SyntaxError (json_error_text p t))
      | Some v \<Rightarrow> return v)"

definition parse_fragment_action :: "platform \<Rightarrow> jsstring option \<Rightarrow> jsvalue \<Rightarrow> jsvalue action" where
  \<comment> \<open>\<open>text ? JSON.parse(text) : otherwise\<close>\<close>
  "parse_fragment_action p text otherwise =
     (if ToBoolean (optional String text)
      then (case text of Some t \<Rightarrow> JSON_parse_action p t | None \<Rightarrow> return otherwise)
      else return otherwise)"

definition null_read :: "string \<Rightarrow> exn" where
  \<comment> \<open>reading a member of \<open>null\<close>, with the text Node gives the error\<close>
  "null_read member =
     TypeError (str ''Cannot read properties of null (reading '' @ [39] @ str member @ [39, 41])"

definition db_handle :: "string \<Rightarrow> jsstring action" where
  \<comment> \<open>\<open>this.db!.member\<close>: the non-null assertion is erased, a null \<open>db\<close> throws\<close>
  "db_handle member =
     (\<lambda>s. case db s of None \<Rightarrow> (Inl (null_read member), s) | Some d \<Rightarrow> (Inr d, s))"

definition client_handle :: "string \<Rightarrow> jsstring action" where
  "client_handle member =
     (\<lambda>s. case client s of None \<Rightarrow> (Inl (null_read member), s) | Some u \<Rightarrow> (Inr u, s))"

definition of_length :: "'a list \<Rightarrow> jsvalue" where
  "of_length xs = Number (Finite (of_nat (length xs)))"

definition effective_skip :: "number option \<Rightarrow> jsvalue" where
  \<comment> \<open>\<open>skip || 0\<close>\<close>
  "effective_skip skip = or_else (optional Number skip) (Number (Finite 0))"

definition effective_limit :: "number option \<Rightarrow> jsvalue" where
  \<comment> \<open>\<open>limit || 100\<close>\<close>
  "effective_limit limit = or_else (optional Number limit) (Number (Finite 100))"

text \<open>
  \<^verbatim>\<open>
  case "mongodb_query": {
    const coll = this.db!.collection(collection);
    const filterObj = filter ? JSON.parse(filter) : {};
    const projectionObj = projection ? JSON.parse(projection) : undefined;
    const sortObj = sort ? JSON.parse(sort) : undefined;
    const results = await coll.find(filterObj, { projection: projectionObj })
      .sort(sortObj || {}).skip(skip || 0).limit(limit || 100).toArray();
    return { content: [{ type: "text", text: JSON.stringify(
      { collection, count: results.length, results }, null, 2) }] };
  }
  \<close>
\<close>

definition mongodb_query :: "platform \<Rightarrow> arguments \<Rightarrow> document action" where
  "mongodb_query p a =
     bind (db_handle ''collection'') (\<lambda>_.
     bind (parse_fragment_action p (arg_filter a) (Object [])) (\<lambda>filterObj.
     bind (parse_fragment_action p (arg_projection a) Undefined) (\<lambda>projectionObj.
     bind (parse_fragment_action p (arg_sort a) Undefined) (\<lambda>sortObj.
     bind (invoke (outcome_documents p)
             (Find (arg_collection a) filterObj projectionObj
                (Some (or_else sortObj (Object [])))
                (Some (effective_skip (arg_skip a)))
                (effective_limit (arg_limit a)))) (\<lambda>results.
     return
       [(str ''collection'', String (arg_collection a)),
        (str ''count'', of_length results),
        (str ''results'', Array (map Object results))])))))"

text \<open>
  \<^verbatim>\<open>
  case "mongodb_count": {
    const coll = this.db!.collection(collection);
    const filterObj = filter ? JSON.parse(filter) : {};
    const count = await coll.countDocuments(filterObj);
    return ... { collection, filter: filterObj, count } ...
  }
  \<close>
\<close>

definition mongodb_count :: "platform \<Rightarrow> arguments \<Rightarrow> document action" where
  "mongodb_count p a =
     bind (db_handle ''collection'') (\<lambda>_.
     bind (parse_fragment_action p (arg_filter a) (Object [])) (\<lambda>filterObj.
     bind (invoke (outcome_number p) (CountDocuments (arg_collection a) filterObj)) (\<lambda>count.
     return
       [(str ''collection'', String (arg_collection a)),
        (str ''filter'', filterObj),
        (str ''count'', Number count)])))"

text \<open>
  \<^verbatim>\<open>
  case "mongodb_aggregate": {
    const coll = this.db!.collection(collection);
    const pipelineObj = JSON.parse(pipeline);
    const results = await coll.aggregate(pipelineObj).toArray();
    return ... { collection, pipeline: pipelineObj, results } ...
  }
  \<close>
\<close>

definition mongodb_aggregate :: "platform \<Rightarrow> arguments \<Rightarrow> document action" where
  "mongodb_aggregate p a =
     bind (db_handle ''collection'') (\<lambda>_.
     bind (JSON_parse_action p (arg_pipeline a)) (\<lambda>pipelineObj.
     bind (invoke (outcome_documents p) (Aggregate (arg_collection a) pipelineObj)) (\<lambda>results.
     return
       [(str ''collection'', String (arg_collection a)),
        (str ''pipeline'', pipelineObj),
        (str ''results'', Array (map Object results))])))"

text \<open>
  \<^verbatim>\<open>
  case "mongodb_distinct": {
    const coll = this.db!.collection(collection);
    const filterObj = filter ? JSON.parse(filter) : {};
    const values = await coll.distinct(field, filterObj);
    return ... { collection, field, distinctValues: values, count: values.length } ...
  }
  \<close>
\<close>

definition mongodb_distinct :: "platform \<Rightarrow> arguments \<Rightarrow> document action" where
  "mongodb_distinct p a =
     bind (db_handle ''collection'') (\<lambda>_.
     bind (parse_fragment_action p (arg_filter a) (Object [])) (\<lambda>filterObj.
     bind (invoke (outcome_values p) (Distinct (arg_collection a) (arg_field a) filterObj))
       (\<lambda>vals.
     return
       [(str ''collection'', String (arg_collection a)),
        (str ''field'', String (arg_field a)),
        (str ''distinctValues'', Array vals),
        (str ''count'', of_length vals)])))"

text \<open>
  \<^verbatim>\<open>
  case "mongodb_list_databases": {
    const adminDb = this.client!.db().admin();
    const { databases } = await adminDb.listDatabases();
    return ... { currentDatabase: DATABASE_NAME,
      connectionUri: MONGODB_URI.replace(/\/\/.*@/, "//***@"), // Hide credentials
      databases: databases.map(db => ({ name: db.name, sizeOnDisk: db.sizeOnDisk,
        empty: db.empty })) } ...
  }
  \<close>
\<close>

definition mongodb_list_databases :: "platform \<Rightarrow> config \<Rightarrow> document action" where
  "mongodb_list_databases p cfg =
     bind (client_handle ''db'') (\<lambda>_.
     bind (invoke (outcome_documents p) ListDatabases) (\<lambda>databases.
     return
       [(str ''currentDatabase'', String (DATABASE_NAME cfg)),
        (str ''connectionUri'', String (redact (MONGODB_URI cfg))),
        (str ''databases'',
           Array (map (\<lambda>d. Object
             [(str ''name'', get d (str ''name'')),
              (str ''sizeOnDisk'', get d (str ''sizeOnDisk'')),
              (str ''empty'', get d (str ''empty''))]) databases))]))"

text \<open>
  \<^verbatim>\<open>
  case "mongodb_list_collections": {
    const targetDb = database ? this.client!.db(database) : this.db!;
    const collections = await targetDb.listCollections().toArray();
    const collectionStats = await Promise.all(collections.map(async (col) => {
      try {
        const stats = await targetDb.command({ collStats: col.name });
        return { name: col.name, type: col.type, count: stats.count || 0,
                 size: stats.size || 0, avgObjSize: stats.avgObjSize || 0 };
      } catch (error) {
        return { name: col.name, type: col.type, error: "Could not retrieve stats" };
      }
    }));
    return ... { database: database || DATABASE_NAME,
      totalCollections: collections.length, collections: collectionStats } ...
  }
  \<close>
  Each \<open>collStats\<close> command is issued, in the order of the collections, when the
  mapping function is called.
\<close>

fun sequence :: "('a \<Rightarrow> 'b action) \<Rightarrow> 'a list \<Rightarrow> 'b list action" where
  "sequence f [] = return []"
| "sequence f (x # xs) = bind (f x) (\<lambda>y. bind (sequence f xs) (\<lambda>ys. return (y # ys)))"

definition collection_stats :: "platform \<Rightarrow> jsstring \<Rightarrow> document \<Rightarrow> jsvalue action" where
  "collection_stats p target col =
     try_catch
       (bind (invoke (outcome_document p) (CollStats target (get col (str ''name'')))) (\<lambda>stats.
        return (Object
          [(str ''name'', get col (str ''name'')),
           (str ''type'', get col (str ''type'')),
           (str ''count'', or_else (get stats (str ''count'')) (Number (Finite 0))),
           (str ''size'', or_else (get stats (str ''size'')) (Number (Finite 0))),
           (str ''avgObjSize'', or_else (get stats (str ''avgObjSize'')) (Number (Finite 0)))])))
       (\<lambda>error.
        return (Object
          [(str ''name'', get col (str ''name'')),
           (str ''type'', get col (str ''type'')),
           (str ''error'', String (str ''Could not retrieve stats''))]))"

definition mongodb_list_collections :: "platform \<Rightarrow> config \<Rightarrow> arguments \<Rightarrow> document action" where
  "mongodb_list_collections p cfg a =
     bind (if ToBoolean (optional String (arg_database a))
           then bind (client_handle ''db'')
                  (\<lambda>_. return (case arg_database a of Some d \<Rightarrow> d | None \<Rightarrow> []))
           else db_handle ''listCollections'') (\<lambda>target.
     bind (invoke (outcome_documents p) (ListCollections target)) (\<lambda>collections.
     bind (sequence (collection_stats p target) collections) (\<lambda>collectionStats.
     return
       [(str ''database'',
           or_else (optional String (arg_database a)) (String (DATABASE_NAME cfg))),
        (str ''totalCollections'', of_length collections),
        (str ''collections'', Array collectionStats)])))"

text \<open>
  \<^verbatim>\<open>
  case "mongodb_verify_connection": {
    const serverStatus = await this.db!.admin().serverStatus();
    const dbStats = await this.db!.stats();
    return ... { connected: true,
      connectionUri: MONGODB_URI.replace(/\/\/.*@/, "//***@"),
      currentDatabase: DATABASE_NAME,
      serverInfo: { version: serverStatus.version, uptime: serverStatus.uptime,
                    host: serverStatus.host },
      databaseStats: { collections: dbStats.collections, dataSize: dbStats.dataSize,
                       storageSize: dbStats.storageSize, indexes: dbStats.indexes } } ...
  }
  \<close>
\<close>

definition mongodb_verify_connection :: "platform \<Rightarrow> config \<Rightarrow> document action" where
  "mongodb_verify_connection p cfg =
     bind (db_handle ''admin'') (\<lambda>_.
     bind (invoke (outcome_document p) ServerStatus) (\<lambda>serverStatus.
     bind (db_handle ''stats'') (\<lambda>_.
     bind (invoke (outcome_document p) DbStats) (\<lambda>dbStats.
     return
       [(str ''connected'', Boolean True),
        (str ''connectionUri'', String (redact (MONGODB_URI cfg))),
        (str ''currentDatabase'', String (DATABASE_NAME cfg)),
        (str ''serverInfo'', Object
           [(str ''version'', get serverStatus (str ''version'')),
            (str ''uptime'', get serverStatus (str ''uptime'')),
            (str ''host'', get serverStatus (str ''host''))]),
        (str ''databaseStats'', Object
           [(str ''collections'', get dbStats (str ''collections'')),
            (str ''dataSize'', get dbStats (str ''dataSize'')),
            (str ''storageSize'', get dbStats (str ''storageSize'')),
            (str ''indexes'', get dbStats (str ''indexes''))])]))))"

text \<open>
  The \<open>switch\<close> on the tool name, with its
  \<^verbatim>\<open>default: throw new Error(`Unknown tool: ${request.params.name}`)\<close>.
\<close>

definition tool_names :: "jsstring list" where
  "tool_names = map str
     [''mongodb_query'', ''mongodb_count'', ''mongodb_aggregate'', ''mongodb_distinct'',
      ''mongodb_list_databases'', ''mongodb_list_collections'', ''mongodb_verify_connection'']"

definition tool_switch :: "platform \<Rightarrow> config \<Rightarrow> request \<Rightarrow> document action" where
  "tool_switch p cfg request =
     (if name request = str ''mongodb_query'' then mongodb_query p (arguments request)
      else if name request = str ''mongodb_count'' then mongodb_count p (arguments request)
      else if name request = str ''mongodb_aggregate''
        then mongodb_aggregate p (arguments request)
      else if name request = str ''mongodb_distinct''
        then mongodb_distinct p (arguments request)
      else if name request = str ''mongodb_list_databases'' then mongodb_list_databases p cfg
      else if name request = str ''mongodb_list_collections''
        then mongodb_list_collections p cfg (arguments request)
      else if name request = str ''mongodb_verify_connection''
        then mongodb_verify_connection p cfg
      else throw (Error (str ''Unknown tool: '' @ name request)))"

text \<open>
  \<^verbatim>\<open>
  this.server.setRequestHandler(CallToolRequestSchema, async (request) => {
    try { await this.connectToMongoDB(); }
    catch (error) {
      return { content: [{ type: "text", text: JSON.stringify({
          error: "MongoDB Connection Failed",
          message: error instanceof Error ? error.message : String(error),
          uri: MONGODB_URI.replace(/\/\/.*@/, "//***@"),
          database: DATABASE_NAME,
          suggestion: "Please verify MongoDB is running and the connection settings are correct",
        }, null, 2) }], isError: true };
    }
    try { switch (request.params.name) { ... } }
    catch (error) {
      return { content: [{ type: "text", text: JSON.stringify({
          error: "Tool Execution Failed",
          tool: request.params.name,
          message: error instanceof Error ? error.message : String(error),
          stack: error instanceof Error ? error.stack : undefined,
        }, null, 2) }], isError: true };
    }
  });
  \<close>
\<close>

definition connection_failed :: "config \<Rightarrow> exn \<Rightarrow> envelope" where
  "connection_failed cfg error =
     \<lparr>content =
        [(str ''error'', String (str ''MongoDB Connection Failed'')),
         (str ''message'', String (message error)),
         (str ''uri'', String (redact (MONGODB_URI cfg))),
         (str ''database'', String (DATABASE_NAME cfg)),
         (str ''suggestion'', String (str
            ''Please verify MongoDB is running and the connection settings are correct''))],
      isError = True\<rparr>"

definition tool_failed :: "platform \<Rightarrow> request \<Rightarrow> exn \<Rightarrow> envelope" where
  "tool_failed p request error =
     \<lparr>content =
        [(str ''error'', String (str ''Tool Execution Failed'')),
         (str ''tool'', String (name request)),
         (str ''message'', String (message error)),
         (str ''stack'', stack_of p error)],
      isError = True\<rparr>"

definition CallTool :: "platform \<Rightarrow> config \<Rightarrow> request \<Rightarrow> envelope action" where
  "CallTool p cfg request =
     bind (try_catch
             (bind (connectToMongoDB p cfg) (\<lambda>_. return None))
             (\<lambda>error. return (Some (connection_failed cfg error)))) (\<lambda>returned.
     case returned of
       Some early \<Rightarrow> return early
     | None \<Rightarrow>
         try_catch
           (bind (tool_switch p cfg request)
              (\<lambda>payload. return \<lparr>content = payload, isError = False\<rparr>))
           (\<lambda>error. return (tool_failed p request error)))"

subsection \<open>Reading a resource\<close>

text \<open>
  \<^verbatim>\<open>
  this.server.setRequestHandler(ReadResourceRequestSchema, async (request) => {
    await this.connectToMongoDB();
    const uri = request.params.uri;
    const match = uri.match(/^mongodb:\/\/([^\/]+)\/(.+)$/);
    if (!match) { throw new Error("Invalid MongoDB URI format"); }
    const [, dbName, collectionName] = match;
    if (dbName !== DATABASE_NAME) {
      throw new Error(`Database ${dbName} does not match connected database ${DATABASE_NAME}`);
    }
    const collection = this.db!.collection(collectionName);
    const stats = await this.db!.command({ collStats: collectionName });
    const sampleDocs = await collection.find({}).limit(5).toArray();
    const schema = this.inferSchema(sampleDocs);
    return { contents: [{ uri, mimeType: "application/json", text: JSON.stringify(
      { collection: collectionName,
        stats: { count: stats.count, size: stats.size, avgObjSize: stats.avgObjSize },
        schema, sampleDocuments: sampleDocs }, null, 2) }] };
  });
  \<close>
  The regular expression asks for the prefix \<open>mongodb://\<close>, a non-empty run without a
  slash, a slash, and a non-empty rest without a line terminator.
\<close>

definition match_uri :: "jsstring \<Rightarrow> (jsstring \<times> jsstring) option" where
  "match_uri uri =
     (if take 10 uri = str ''mongodb://'' then
        (let dbName = takeWhile (\<lambda>c. c \<noteq> 47) (drop 10 uri);
             rest = dropWhile (\<lambda>c. c \<noteq> 47) (drop 10 uri)
         in if dbName = [] \<or> rest = [] \<or> tl rest = [] \<or> list_ex LineTerminator (tl rest)
            then None
            else Some (dbName, tl rest))
      else None)"

definition schema_value :: "schema \<Rightarrow> jsvalue" where
  "schema_value schema =
     Object (map (\<lambda>(k, d). (k, Object [(str ''type'', String (type d)),
                                        (str ''examples'', Array (examples d))])) schema)"

definition ReadResource :: "platform \<Rightarrow> config \<Rightarrow> jsstring \<Rightarrow> document action" where
  "ReadResource p cfg uri =
     bind (connectToMongoDB p cfg) (\<lambda>_.
     case match_uri uri of
       None \<Rightarrow> throw (Error (str ''Invalid MongoDB URI format''))
     | Some (dbName, collectionName) \<Rightarrow>
         if dbName \<noteq> DATABASE_NAME cfg then
           throw (Error (str ''Database '' @ dbName
                    @ str '' does not match connected database '' @ DATABASE_NAME cfg))
         else
           bind (db_handle ''collection'') (\<lambda>_.
           bind (db_handle ''command'') (\<lambda>d.
           bind (invoke (outcome_document p) (CollStats d (String collectionName))) (\<lambda>stats.
           bind (invoke (outcome_documents p)
                   (Find collectionName (Object []) Undefined None None (Number (Finite 5))))
             (\<lambda>sampleDocs.
           bind (\<lambda>s. (inferSchema sampleDocs, s)) (\<lambda>schema.
           return
             [(str ''collection'', String collectionName),
              (str ''stats'', Object
                 [(str ''count'', get stats (str ''count'')),
                  (str ''size'', get stats (str ''size'')),
                  (str ''avgObjSize'', get stats (str ''avgObjSize''))]),
              (str ''schema'', schema_value schema),
              (str ''sampleDocuments'', Array (map Object sampleDocs))]))))))"

subsection \<open>Concurrent callers of \<open>connectToMongoDB\<close>\<close>

text \<open>
  The transport hands a request to its handler as soon as it arrives, so several
  handlers can be inside \<open>connectToMongoDB\<close> at once. An \<open>async\<close> function runs without
  interruption up to its next \<open>await\<close>; a caller is therefore at the entry, waiting for
  \<open>connect()\<close>, waiting for the ping, or finished. A step runs one caller from where it
  stands to its next \<open>await\<close> or to its end; an awaited call may resolve or reject.
\<close>

datatype pc = Entry | AwaitConnect | AwaitPing | Returned | Thrown

inductive step :: "config \<Rightarrow> server \<times> pc list \<Rightarrow> server \<times> pc list \<Rightarrow> bool" for cfg where
  already_has_client:
    "i < length pcs \<Longrightarrow> pcs ! i = Entry \<Longrightarrow> client s \<noteq> None \<Longrightarrow>
     step cfg (s, pcs) (s, pcs[i := Returned])"
| constructor_throws:
    "i < length pcs \<Longrightarrow> pcs ! i = Entry \<Longrightarrow> client s = None \<Longrightarrow>
     step cfg (s, pcs)
       (s\<lparr>calls := calls s @ [NewMongoClient (MONGODB_URI cfg)]\<rparr>, pcs[i := Thrown])"
| starts_connect:
    "i < length pcs \<Longrightarrow> pcs ! i = Entry \<Longrightarrow> client s = None \<Longrightarrow>
     step cfg (s, pcs)
       (s\<lparr>client := Some (MONGODB_URI cfg),
          calls := calls s @ [NewMongoClient (MONGODB_URI cfg), Connect]\<rparr>,
        pcs[i := AwaitConnect])"
| connect_rejects:
    "i < length pcs \<Longrightarrow> pcs ! i = AwaitConnect \<Longrightarrow>
     step cfg (s, pcs) (s, pcs[i := Thrown])"
| connect_resolves:
    "i < length pcs \<Longrightarrow> pcs ! i = AwaitConnect \<Longrightarrow>
     step cfg (s, pcs) (s\<lparr>calls := calls s @ [Ping]\<rparr>, pcs[i := AwaitPing])"
| ping_rejects:
    "i < length pcs \<Longrightarrow> pcs ! i = AwaitPing \<Longrightarrow>
     step cfg (s, pcs) (s, pcs[i := Thrown])"
| ping_resolves:
    "i < length pcs \<Longrightarrow> pcs ! i = AwaitPing \<Longrightarrow>
     step cfg (s, pcs) (s\<lparr>db := Some (DATABASE_NAME cfg)\<rparr>, pcs[i := Returned])"

section \<open>Auxiliary notions and sample inputs\<close>

text \<open>The bound on the example lists, as a property of a schema.\<close>

definition bounded :: "schema \<Rightarrow> bool" where
  "bounded schema = (\<forall>p\<in>set schema. length (examples (snd p)) \<le> 3)"

text \<open>Sample documents: the one of the specification's round trip, four that share a
  field, and two whose fields are an \<open>undefined\<close> value and an array index.\<close>

definition round_trip_documents :: "document list" where
  "round_trip_documents =
     [[(str ''a'', Number (Finite 1)), (str ''b'', String (str ''x'')),
       (str ''c'', Array [Number (Finite 1), Number (Finite 2)])]]"

definition four_documents :: "document list" where
  "four_documents =
     [[(str ''a'', Number (Finite 1))], [(str ''a'', Number (Finite 2))],
      [(str ''a'', Number (Finite 3))], [(str ''a'', Number (Finite 4))]]"

definition two_documents :: "document list" where
  "two_documents = [[(str ''b'', Undefined)], [(str ''0'', Number (Finite 1))]]"

section \<open>Properties of the schema inferencer\<close>

lemma forEach_append:
  "forEach f (xs @ ys) s = (case forEach f xs s of Inl e \<Rightarrow> Inl e | Inr s' \<Rightarrow> forEach f ys s')"
  by (induction xs arbitrary: s) (auto split: sum.splits)

lemma forEach_map: "forEach (\<lambda>s x. f s (g x)) xs s = forEach f (map g xs) s"
  by (induction xs arbitrary: s) (auto split: sum.splits)

lemma forEach_concat:
  "forEach (\<lambda>s x. forEach f (h x) s) xs s = forEach f (concat (map h xs)) s"
  by (induction xs arbitrary: s) (auto simp: forEach_append split: sum.splits)

lemma forEach_invariant:
  assumes "\<And>s x s'. P s \<Longrightarrow> f s x = Inr s' \<Longrightarrow> P s'"
  shows "P s \<Longrightarrow> forEach f xs s = Inr s' \<Longrightarrow> P s'"
proof (induction xs arbitrary: s)
  case Nil
  then show ?case by simp
next
  case (Cons x xs)
  then show ?case using assms by (auto split: sum.splits)
qed

lemma inferSchema_visits:
  "inferSchema documents =
     forEach (\<lambda>schema (k, v). infer_field schema k v) (visits documents) []"
proof -
  let ?F = "\<lambda>schema (k, v). infer_field schema k v"
  have inner: "forEach (\<lambda>schema key. infer_field schema key (get doc key)) ks schema
      = forEach ?F (map (\<lambda>key. (key, get doc key)) ks) schema" for doc ks schema
    using forEach_map [of ?F "\<lambda>key. (key, get doc key)" ks schema] by simp
  show ?thesis
    by (cases documents) (simp_all add: inferSchema_def visits_def inner forEach_concat)
qed

lemma set_property_absent: "k \<notin> fst ` set ps \<Longrightarrow> set_property ps k v = ps @ [(k, v)]"
  by (induction ps) auto

lemma set_property_last:
  "k \<notin> fst ` set ps \<Longrightarrow> set_property (ps @ [(k, d0)]) k d = ps @ [(k, d)]"
  by (induction ps) auto

lemma set_property_keyed:
  "distinct ks \<Longrightarrow> k \<in> set ks \<Longrightarrow>
   set_property (map (\<lambda>k'. (k', f k')) ks) k v = map (\<lambda>k'. (k', if k' = k then v else f k')) ks"
  by (induction ks) auto

lemma set_set_property: "set (set_property ps k v) \<subseteq> insert (k, v) (set ps)"
  by (induction ps) (auto split: if_splits)

lemma map_of_keyed: "map_of (map (\<lambda>k. (k, f k)) ks) k = (if k \<in> set ks then Some (f k) else None)"
  by (induction ks) auto

lemma first_seen_snoc:
  "first_seen (xs @ [x]) = (if x \<in> set xs then first_seen xs else first_seen xs @ [x])"
  by (simp add: first_seen_def)

lemma set_first_seen: "set (first_seen xs) = set xs"
  by (simp add: first_seen_def)

lemma distinct_first_seen: "distinct (first_seen xs)"
  by (simp add: first_seen_def)

lemma take3_snoc:
  "take 3 (ys @ [v]) = (if length (take 3 ys) < 3 then take 3 ys @ [v] else take 3 ys)"
  by auto

lemma described_other:
  "k' \<noteq> k \<Longrightarrow> described (pairs @ [(k, v)]) k' = described pairs k'"
  by (simp add: described_def get_def values_of_def map_add_def split: option.splits)

lemma described_seen:
  assumes "k \<in> fst ` set pairs"
  shows "described (pairs @ [(k, v)]) k =
    \<lparr>type = type (described pairs k),
     examples = (if length (examples (described pairs k)) < 3 \<and> v \<noteq> Null \<and> v \<noteq> Undefined
                 then examples (described pairs k) @ [v] else examples (described pairs k))\<rparr>"
proof -
  from assms obtain w where "map_of pairs k = Some w"
    by (metis map_of_eq_None_iff not_Some_eq)
  then have g: "get (pairs @ [(k, v)]) k = get pairs k"
    by (simp add: get_def map_add_def)
  let ?ok = "\<lambda>v. v \<noteq> Null \<and> v \<noteq> Undefined"
  have vs: "values_of (pairs @ [(k, v)]) k = values_of pairs k @ [v]"
    by (simp add: values_of_def)
  have "take 3 (filter ?ok (values_of pairs k @ [v])) =
      (if length (take 3 (filter ?ok (values_of pairs k))) < 3 \<and> ?ok v
       then take 3 (filter ?ok (values_of pairs k)) @ [v]
       else take 3 (filter ?ok (values_of pairs k)))"
  proof (cases "?ok v")
    case True
    then have "filter ?ok (values_of pairs k @ [v]) = filter ?ok (values_of pairs k) @ [v]"
      by simp
    then show ?thesis using True by (simp only: take3_snoc) simp
  next
    case False
    then have "filter ?ok (values_of pairs k @ [v]) = filter ?ok (values_of pairs k)"
      by auto
    then show ?thesis using False by (simp only:) auto
  qed
  then show ?thesis
    unfolding described_def g vs by simp
qed

lemma described_new:
  assumes "k \<notin> fst ` set pairs"
  shows "described (pairs @ [(k, v)]) k =
    \<lparr>type = classify v, examples = (if v \<noteq> Null \<and> v \<noteq> Undefined then [v] else [])\<rparr>"
proof -
  from assms have "map_of pairs k = None"
    by (simp add: map_of_eq_None_iff)
  then have g: "get (pairs @ [(k, v)]) k = v"
    by (simp add: get_def map_add_def)
  from assms have "filter (\<lambda>p. fst p = k) pairs = []"
    by (auto simp: filter_empty_conv)
  with g show ?thesis
    by (simp add: described_def values_of_def)
qed

lemma infer_field_collected:
  assumes "k \<notin> set Object_prototype_keys"
  shows "infer_field (collected pairs) k v = Inr (collected (pairs @ [(k, v)]))"
proof (cases "k \<in> fst ` set pairs")
  case True
  then have mem: "k \<in> set (first_seen (map fst pairs))"
    by (simp add: set_first_seen)
  have keys: "first_seen (map fst (pairs @ [(k, v)])) = first_seen (map fst pairs)"
    using True by (simp add: first_seen_snoc)
  have own: "get_property (collected pairs) k = Own (described pairs k)"
    using mem by (simp add: get_property_def collected_def map_of_keyed)
  have upd: "set_property (collected pairs) k d =
      map (\<lambda>k'. (k', if k' = k then d else described pairs k')) (first_seen (map fst pairs))" for d
    unfolding collected_def using mem by (simp add: set_property_keyed distinct_first_seen)
  have same: "collected (pairs @ [(k, v)]) =
      map (\<lambda>k'. (k', if k' = k then described (pairs @ [(k, v)]) k else described pairs k'))
        (first_seen (map fst pairs))"
    unfolding collected_def keys by (rule map_cong) (auto simp: described_other)
  show ?thesis
  proof (cases "length (examples (described pairs k)) < 3 \<and> v \<noteq> Null \<and> v \<noteq> Undefined")
    case yes: True
    then show ?thesis
      using own by (simp add: infer_field_def upd same described_seen [OF True])
  next
    case no: False
    have "described (pairs @ [(k, v)]) k = described pairs k"
      using no by (simp add: described_seen [OF True])
    then have "map (\<lambda>k'. (k', if k' = k then described (pairs @ [(k, v)]) k else described pairs k'))
        (first_seen (map fst pairs)) = collected pairs"
      unfolding collected_def by (intro map_cong) auto
    with same have "collected (pairs @ [(k, v)]) = collected pairs"
      by simp
    then show ?thesis
      using own no by (auto simp add: infer_field_def)
  qed
next
  case False
  then have nmem: "k \<notin> set (first_seen (map fst pairs))"
    by (simp add: set_first_seen)
  have keys: "first_seen (map fst (pairs @ [(k, v)])) = first_seen (map fst pairs) @ [k]"
    using False by (simp add: first_seen_snoc)
  have absent: "get_property (collected pairs) k = Absent"
    using nmem assms by (simp add: get_property_def collected_def map_of_keyed)
  have nokey: "k \<notin> fst ` set (collected pairs)"
    using nmem by (auto simp: collected_def)
  have "described (pairs @ [(k, v)]) x = described pairs x"
    if "x \<in> set (first_seen (map fst pairs))" for x
    using that nmem by (intro described_other) auto
  then have old: "map (\<lambda>k'. (k', described (pairs @ [(k, v)]) k')) (first_seen (map fst pairs))
      = collected pairs"
    unfolding collected_def by simp
  have new: "collected (pairs @ [(k, v)]) =
      collected pairs @ [(k, \<lparr>type = classify v,
         examples = (if v \<noteq> Null \<and> v \<noteq> Undefined then [v] else [])\<rparr>)]"
  proof -
    have "collected (pairs @ [(k, v)]) =
        map (\<lambda>k'. (k', described (pairs @ [(k, v)]) k')) (first_seen (map fst pairs) @ [k])"
      by (simp only: collected_def keys)
    also have "\<dots> = map (\<lambda>k'. (k', described (pairs @ [(k, v)]) k')) (first_seen (map fst pairs))
        @ [(k, described (pairs @ [(k, v)]) k)]"
      by simp
    also have "\<dots> = collected pairs @ [(k, \<lparr>type = classify v,
         examples = (if v \<noteq> Null \<and> v \<noteq> Undefined then [v] else [])\<rparr>)]"
      by (simp only: old described_new [OF False])
    finally show ?thesis .
  qed
  let ?d0 = "\<lparr>type = classify v, examples = []\<rparr>"
  have s1: "set_property (collected pairs) k ?d0 = collected pairs @ [(k, ?d0)]"
    using nokey by (rule set_property_absent)
  have own1: "get_property (collected pairs @ [(k, ?d0)]) k = Own ?d0"
    using absent by (auto simp: get_property_def map_add_def split: option.splits)
  have s2: "set_property (collected pairs @ [(k, ?d0)]) k d = collected pairs @ [(k, d)]" for d
    using nokey by (rule set_property_last)
  show ?thesis
    by (simp add: infer_field_def absent s1 own1 s2 new)
qed

lemma forEach_collected:
  "\<forall>p\<in>set pairs. fst p \<notin> set Object_prototype_keys \<Longrightarrow>
   forEach (\<lambda>schema (k, v). infer_field schema k v) pairs [] = Inr (collected pairs)"
proof (induction pairs rule: rev_induct)
  case Nil
  then show ?case by (simp add: collected_def first_seen_def)
next
  case (snoc p pairs)
  obtain k v where p: "p = (k, v)" by (cases p)
  with snoc show ?case
    by (simp add: forEach_append infer_field_collected)
qed

lemma classify_range:
  "classify v \<in> set (map str [''array'', ''null'', ''object'', ''number'', ''string'',
      ''boolean'', ''undefined''])"
  by (cases v) (simp_all add: classify_def)

lemma fst_visits:
  "fst ` set (visits documents) = (\<Union>doc\<in>set documents. set (Object_keys doc))"
  by (auto simp: visits_def image_iff)

lemma bounded_set_property:
  "bounded ps \<Longrightarrow> length (examples d) \<le> 3 \<Longrightarrow> bounded (set_property ps k d)"
  using set_set_property [of ps k d] by (auto simp: bounded_def)

lemma get_property_OwnD: "get_property ps k = Own d \<Longrightarrow> (k, d) \<in> set ps"
  by (auto simp: get_property_def split: option.splits if_splits dest: map_of_SomeD)

lemma infer_field_bounded:
  assumes "bounded schema" and "infer_field schema k v = Inr schema'"
  shows "bounded schema'"
proof -
  define schema1 where "schema1 =
     (case get_property schema k of
        Absent \<Rightarrow> set_property schema k \<lparr>type = classify v, examples = []\<rparr>
      | _ \<Rightarrow> schema)"
  have b1: "bounded schema1"
    using assms(1) by (auto simp: schema1_def bounded_set_property split: lookup.splits)
  from assms(2) obtain d where own: "get_property schema1 k = Own d"
    and res: "schema' = (if length (examples d) < 3 \<and> v \<noteq> Null \<and> v \<noteq> Undefined
                  then set_property schema1 k (d\<lparr>examples := examples d @ [v]\<rparr>)
                  else schema1)"
    by (auto simp: infer_field_def schema1_def [symmetric] Let_def split: lookup.splits)
  show ?thesis
    unfolding res using b1 by (auto intro: bounded_set_property)
qed

text \<open>
  Claim C8, as the code has it. Over every sample in which no field is named like a
  member of \<open>Object.prototype\<close>, the inferencer returns a schema whose fields were
  created in first-discovery order and are enumerated with the array-index names first
  (ascending) and the other names in first-discovery order. Each field carries the
  class of the first value seen for it, which is one of \<open>array\<close>, \<open>null\<close>, \<open>object\<close>,
  \<open>number\<close>, \<open>string\<close>, \<open>boolean\<close> or \<open>undefined\<close>, whatever later documents hold, and
  as examples the first three values seen for it that are neither \<open>null\<close> nor
  \<open>undefined\<close>. Here \<open>get (visits documents) key\<close> is the first value visited
  under \<open>key\<close>.
\<close>

theorem inferSchema_first_seen:
  assumes "\<forall>doc\<in>set documents. \<forall>key\<in>set (Object_keys doc). key \<notin> set Object_prototype_keys"
  shows "\<exists>schema. inferSchema documents = Inr schema
     \<and> map fst schema = first_seen (map fst (visits documents))
     \<and> Object_keys schema = enumeration_order (first_seen (map fst (visits documents)))
     \<and> (\<forall>(key, d)\<in>set schema.
           type d = classify (get (visits documents) key)
         \<and> type d \<in> set (map str [''array'', ''null'', ''object'', ''number'', ''string'',
                                   ''boolean'', ''undefined''])
         \<and> examples d = take 3 (filter (\<lambda>v. v \<noteq> Null \<and> v \<noteq> Undefined)
                                 (values_of (visits documents) key)))"
proof -
  let ?pairs = "visits documents"
  have "fst p \<notin> set Object_prototype_keys" if "p \<in> set ?pairs" for p
  proof -
    from that have "fst p \<in> fst ` set ?pairs" by (rule imageI)
    then obtain doc where "doc \<in> set documents" and "fst p \<in> set (Object_keys doc)"
      unfolding fst_visits by blast
    with assms show ?thesis by blast
  qed
  then have "\<forall>p\<in>set ?pairs. fst p \<notin> set Object_prototype_keys" by blast
  then have "forEach (\<lambda>schema (k, v). infer_field schema k v) ?pairs [] = Inr (collected ?pairs)"
    by (rule forEach_collected)
  then have run: "inferSchema documents = Inr (collected ?pairs)"
    by (simp only: inferSchema_visits)
  have keys: "map fst (collected ?pairs) = first_seen (map fst ?pairs)"
    by (simp add: collected_def comp_def)
  have fields: "d = described ?pairs key" if "(key, d) \<in> set (collected ?pairs)" for key d
    using that by (auto simp: collected_def)
  have all: "\<forall>(key, d)\<in>set (collected ?pairs).
           type d = classify (get ?pairs key)
         \<and> type d \<in> set (map str [''array'', ''null'', ''object'', ''number'', ''string'',
                                   ''boolean'', ''undefined''])
         \<and> examples d = take 3 (filter (\<lambda>v. v \<noteq> Null \<and> v \<noteq> Undefined)
                                 (values_of ?pairs key))"
  proof (clarify, intro conjI)
    fix key d
    assume "(key, d) \<in> set (collected ?pairs)"
    then have d: "d = described ?pairs key" by (rule fields)
    show "type d = classify (get ?pairs key)"
      by (simp add: d described_def)
    show "type d \<in> set (map str [''array'', ''null'', ''object'', ''number'', ''string'',
                                   ''boolean'', ''undefined''])"
      using classify_range [of "get ?pairs key"] by (simp add: d described_def)
    show "examples d = take 3 (filter (\<lambda>v. v \<noteq> Null \<and> v \<noteq> Undefined)
                                 (values_of ?pairs key))"
      by (simp add: d described_def)
  qed
  have order: "Object_keys (collected ?pairs) = enumeration_order (first_seen (map fst ?pairs))"
    by (simp only: Object_keys_def keys)
  show ?thesis
    using run keys order all by (intro exI [of _ "collected ?pairs"] conjI)
qed

theorem inferSchema_first_seen_witness:
  "list_all (\<lambda>doc. list_all (\<lambda>key. key \<notin> set Object_prototype_keys) (Object_keys doc))
     round_trip_documents
   \<and> inferSchema round_trip_documents =
       Inr [(str ''a'', \<lparr>type = str ''number'', examples = [Number (Finite 1)]\<rparr>),
            (str ''b'', \<lparr>type = str ''string'', examples = [String (str ''x'')]\<rparr>),
            (str ''c'', \<lparr>type = str ''array'',
                         examples = [Array [Number (Finite 1), Number (Finite 2)]]\<rparr>)]
   \<and> (\<exists>schema. inferSchema round_trip_documents = Inr schema
     \<and> map fst schema = first_seen (map fst (visits round_trip_documents))
     \<and> Object_keys schema = enumeration_order (first_seen (map fst (visits round_trip_documents)))
     \<and> (\<forall>(key, d)\<in>set schema.
           type d = classify (get (visits round_trip_documents) key)
         \<and> type d \<in> set (map str [''array'', ''null'', ''object'', ''number'', ''string'',
                                   ''boolean'', ''undefined''])
         \<and> examples d = take 3 (filter (\<lambda>v. v \<noteq> Null \<and> v \<noteq> Undefined)
                                 (values_of (visits round_trip_documents) key))))"
proof -
  have h: "\<forall>doc\<in>set round_trip_documents. \<forall>key\<in>set (Object_keys doc).
       key \<notin> set Object_prototype_keys"
    by (simp add: round_trip_documents_def Object_keys_def enumeration_order_def
        is_array_index_def is_digit_def str_def Object_prototype_keys_def)
  have e: "inferSchema round_trip_documents =
       Inr [(str ''a'', \<lparr>type = str ''number'', examples = [Number (Finite 1)]\<rparr>),
            (str ''b'', \<lparr>type = str ''string'', examples = [String (str ''x'')]\<rparr>),
            (str ''c'', \<lparr>type = str ''array'',
                         examples = [Array [Number (Finite 1), Number (Finite 2)]]\<rparr>)]"
    by (simp add: round_trip_documents_def inferSchema_def infer_field_def get_property_def
        Object_keys_def enumeration_order_def is_array_index_def is_digit_def str_def get_def
        classify_def Object_prototype_keys_def Let_def
        cong: sum.case_cong_weak lookup.case_cong_weak option.case_cong_weak)
  have hl: "list_all (\<lambda>doc. list_all (\<lambda>key. key \<notin> set Object_prototype_keys)
      (Object_keys doc)) round_trip_documents"
    using h by (simp add: list_all_iff)
  show ?thesis
    using hl e inferSchema_first_seen [OF h] by blast
qed

text \<open>
  Claim C8 as stated fails on \<open>two_documents\<close>: the field \<open>b\<close>, whose value is
  \<open>undefined\<close>, is given the type \<open>undefined\<close>, which is none of the six classes, and
  the field \<open>0\<close>, discovered after \<open>b\<close>, is listed before it.
\<close>

theorem inferSchema_classes_and_order_counterexample:
  "inferSchema two_documents =
     Inr [(str ''b'', \<lparr>type = str ''undefined'', examples = []\<rparr>),
          (str ''0'', \<lparr>type = str ''number'', examples = [Number (Finite 1)]\<rparr>)]
   \<and> str ''undefined'' \<notin> set (map str [''array'', ''null'', ''object'', ''number'',
                                          ''string'', ''boolean''])
   \<and> first_seen (map fst (visits two_documents)) = [str ''b'', str ''0'']
   \<and> Object_keys [(str ''b'', \<lparr>type = str ''undefined'', examples = []\<rparr>),
          (str ''0'', \<lparr>type = str ''number'', examples = [Number (Finite 1)]\<rparr>)]
       = [str ''0'', str ''b'']"
  by (simp add: two_documents_def inferSchema_def infer_field_def get_property_def
      Object_keys_def enumeration_order_def is_array_index_def is_digit_def decimal_value_def
      str_def get_def classify_def Object_prototype_keys_def Let_def visits_def first_seen_def
        cong: sum.case_cong_weak lookup.case_cong_weak option.case_cong_weak)

text \<open>
  Claim C9. Whatever the sample, no field of the schema the inferencer returns has more
  than three examples.
\<close>

theorem inferSchema_examples_at_most_3:
  assumes "inferSchema documents = Inr schema" and "(key, d) \<in> set schema"
  shows "length (examples d) \<le> 3"
proof -
  have "bounded []" by (simp add: bounded_def)
  moreover have "forEach (\<lambda>schema (k, v). infer_field schema k v) (visits documents) [] = Inr schema"
    using assms(1) by (simp add: inferSchema_visits)
  ultimately have "bounded schema"
    by (rule forEach_invariant [where P = bounded, rotated 1])
       (auto intro: infer_field_bounded)
  with assms(2) show ?thesis by (force simp: bounded_def)
qed

theorem inferSchema_examples_at_most_3_witness:
  "inferSchema four_documents =
     Inr [(str ''a'', \<lparr>type = str ''number'',
            examples = [Number (Finite 1), Number (Finite 2), Number (Finite 3)]\<rparr>)]
   \<and> length (examples \<lparr>type = str ''number'',
            examples = [Number (Finite 1), Number (Finite 2), Number (Finite 3)]\<rparr>) \<le> 3"
proof -
  have e: "inferSchema four_documents =
     Inr [(str ''a'', \<lparr>type = str ''number'',
            examples = [Number (Finite 1), Number (Finite 2), Number (Finite 3)]\<rparr>)]"
    by (simp add: four_documents_def inferSchema_def infer_field_def get_property_def
        Object_keys_def enumeration_order_def is_array_index_def is_digit_def str_def get_def
        classify_def Object_prototype_keys_def Let_def
        cong: sum.case_cong_weak lookup.case_cong_weak option.case_cong_weak)
  show ?thesis
    using e inferSchema_examples_at_most_3 [OF e, of "str ''a''"] by simp
qed

end
